theory Spec2Isabelle
  imports Main
begin

section \<open>Data model of the tiddler store\<close>

text \<open>
  The facade \<open>GlobalTiddlerStore\<close> of \<open>src/backend/api/tiddler-store.ts\<close> serves reads,
  writes and removals of tiddlers (documents) in bags (partitions) and recipes (ordered
  lists of bags). Its collaborators (persistence, policy checker, recipe resolver, tiddler
  factory) are injected; they are parameters of the model.
\<close>

type_synonym User = string
type_synonym Revision = string

text \<open>A tiddler is a JavaScript object: a finite map from field names to values.\<close>

datatype fieldval =
    FString string
  | FNumber int
  | FObject "(string \<times> fieldval) list"

type_synonym Tiddler = "string \<rightharpoonup> fieldval"
type_synonym TiddlerData = "string \<rightharpoonup> fieldval"

record TiddlerNamespace =
  wiki :: string
  bag :: string

record NamespacedRecipe =
  recipe_wiki :: string
  recipe :: string

record NamespacedTiddler =
  namespace :: TiddlerNamespace
  title :: string
  tvalue :: Tiddler
  revision :: Revision

text \<open>One entry of the list a policy check returns: \<open>{bag, allowed, reason?}\<close>.\<close>

record Permission =
  perm_bag :: string
  allowed :: bool
  reason :: "string option"

text \<open>
  \<open>TiddlerUpdateOrCreate\<close>: an object with an \<open>update\<close> key (and an optional expected
  revision), or one with a \<open>create\<close> key.
\<close>

datatype TiddlerUpdateOrCreate =
    Update TiddlerData "Revision option"
  | Create TiddlerData

datatype AccessMode = ReadMode | WriteMode

datatype http_status = HTTP_BAD_REQUEST | HTTP_FORBIDDEN | HTTP_NOT_FOUND | HTTP_CONFLICT

text \<open>
  What a call can throw: an \<open>HTTPError\<close> with message and status, a plain \<open>Error\<close>, and
  the \<open>TypeError\<close> of JavaScript for a property read on \<open>undefined\<close>.
\<close>

datatype error =
    HTTPError string http_status
  | Error string
  | TypeError string

text \<open>\<open>MaybeArray<NamespacedTiddler>\<close>: a read returns one record or a list of records.\<close>

datatype MaybeArray = Single NamespacedTiddler | Array "NamespacedTiddler list"

section \<open>Collaborators\<close>

text \<open>
  The persistence handle a transaction hands to its callback. \<open>'s\<close> is the state behind
  the handle. The updater given to \<open>updateDoc\<close> is a closure: \<open>'l\<close> is the state of the
  variables it captures, threaded through the call next to the persistent state.
\<close>

type_synonym 'l Updater = "Tiddler option \<Rightarrow> 'l \<Rightarrow> (error + Tiddler option) \<times> 'l"

record ('s, 'l) TiddlerPersistence =
  readDocs :: "(TiddlerNamespace \<times> string) list \<Rightarrow> 's \<Rightarrow> NamespacedTiddler list"
  readCollections :: "TiddlerNamespace list \<Rightarrow> 's \<Rightarrow> NamespacedTiddler list"
  updateDoc :: "TiddlerNamespace \<Rightarrow> string \<Rightarrow> 'l Updater \<Rightarrow> Revision option
                  \<Rightarrow> 's \<times> 'l \<Rightarrow> (error + NamespacedTiddler option) \<times> 's \<times> 'l"

text \<open>
  Policy checker, recipe resolver and tiddler factory. The checks and the resolver receive
  the persistence handle and read through it: they are functions of the state.
  \<open>getRecipeBags\<close> yields \<open>None\<close> for JavaScript's \<open>undefined\<close>.
\<close>

record 's Collaborators =
  getRecipeBags :: "User \<Rightarrow> AccessMode \<Rightarrow> 's \<Rightarrow> NamespacedRecipe \<Rightarrow> string list option"
  verifyReadAccess :: "'s \<Rightarrow> User \<Rightarrow> string \<Rightarrow> string list \<Rightarrow> Permission list"
  getWriteableBag :: "'s \<Rightarrow> User \<Rightarrow> string \<Rightarrow> string list \<Rightarrow> string \<Rightarrow> TiddlerData
                        \<Rightarrow> Permission list"
  verifyRemoveAccess :: "'s \<Rightarrow> User \<Rightarrow> string \<Rightarrow> string list \<Rightarrow> Permission list"
  createTiddler :: "User \<Rightarrow> string \<Rightarrow> fieldval option \<Rightarrow> TiddlerData \<Rightarrow> Tiddler"

text \<open>
  Modelled from the spec: the TransactionRunner (injected, not in this file) runs the
  callback once against one persistence handle and propagates its result or failure
  unchanged.
\<close>

definition runTransaction ::
  "('s, 'l) TiddlerPersistence \<Rightarrow> User
     \<Rightarrow> (('s, 'l) TiddlerPersistence \<Rightarrow> 's \<times> 'l \<Rightarrow> 'r \<times> 's \<times> 'l) \<Rightarrow> 's \<times> 'l \<Rightarrow> 'r \<times> 's \<times> 'l" where
  "runTransaction persistence user fn w = fn persistence w"

text \<open>
  Modelled from the spec: \<open>getTiddlerData\<close> of
  \<open>shared/model/store\<close> (not in this file) gives the candidate content: the
  update fields or the creation fields.
\<close>

definition getTiddlerData :: "TiddlerUpdateOrCreate \<Rightarrow> TiddlerData" where
  "getTiddlerData updateOrCreate =
     (case updateOrCreate of Update update _ \<Rightarrow> update | Create create \<Rightarrow> create)"

text \<open>
  Modelled from the spec: \<open>getExpectedRevision\<close> of
  \<open>shared/model/store\<close> (not in this file): the expected revision of an update
  intent, none for a create intent.
\<close>

definition getExpectedRevision :: "TiddlerUpdateOrCreate \<Rightarrow> Revision option" where
  "getExpectedRevision updateOrCreate =
     (case updateOrCreate of Update _ expectedRevision \<Rightarrow> expectedRevision | Create _ \<Rightarrow> None)"

section \<open>Helpers of the facade\<close>

text \<open>\<open>Array.prototype.join\<close> on strings.\<close>

fun join :: "string \<Rightarrow> string list \<Rightarrow> string" where
  "join sep [] = []"
| "join sep [x] = x"
| "join sep (x # y # ys) = x @ sep @ join sep (y # ys)"

text \<open>A string used as a condition is true when it is defined and not empty.\<close>

definition truthy :: "string option \<Rightarrow> bool" where
  "truthy x = (case x of None \<Rightarrow> False | Some s \<Rightarrow> s \<noteq> [])"

text \<open>\<open>reason || ""\<close>\<close>

definition reasonOrEmpty :: "Permission \<Rightarrow> string" where
  "reasonOrEmpty p = (case reason p of None \<Rightarrow> [] | Some r \<Rightarrow> r)"

text \<open>
  \<open>deduplicate\<close>: the loop over the records, with the set \<open>encounteredTitles\<close> and the
  result list \<open>deduplicated\<close> as loop state. The body skips a record whose title is in the
  set and pushes every other one; it does not add to the set.
\<close>

fun deduplicate_loop ::
  "string set \<Rightarrow> NamespacedTiddler list \<Rightarrow> NamespacedTiddler list \<Rightarrow> NamespacedTiddler list" where
  "deduplicate_loop encounteredTitles deduplicated [] = deduplicated"
| "deduplicate_loop encounteredTitles deduplicated (tiddler # tiddlers) =
     (if title tiddler \<in> encounteredTitles
      then deduplicate_loop encounteredTitles deduplicated tiddlers
      else deduplicate_loop encounteredTitles (deduplicated @ [tiddler]) tiddlers)"

definition deduplicate :: "NamespacedTiddler list \<Rightarrow> NamespacedTiddler list" where
  "deduplicate tiddlers = deduplicate_loop {} [] tiddlers"

definition getFirst :: "NamespacedTiddler list \<Rightarrow> string \<Rightarrow> NamespacedTiddler option" where
  "getFirst tiddlers t = find (\<lambda>x. title x = t) tiddlers"

text \<open>
  \<open>getUpdater\<close>: the function handed to \<open>updateDoc\<close>. \<open>Object.assign({}, existing, update)\<close>
  copies the fields of \<open>existing\<close>, then those of \<open>update\<close> over them: map addition.
\<close>

definition getUpdater ::
  "'s Collaborators \<Rightarrow> User \<Rightarrow> string \<Rightarrow> TiddlerUpdateOrCreate \<Rightarrow> Tiddler option
     \<Rightarrow> error + Tiddler" where
  "getUpdater c user t updateOrCreate existingTiddler =
     (case updateOrCreate of
        Update update _ \<Rightarrow>
          (case existingTiddler of
             None \<Rightarrow> Inl (HTTPError (''Tiddler '' @ t
                       @ '' received update, but no such tiddler exists in bag'') HTTP_BAD_REQUEST)
           | Some existing \<Rightarrow> Inr (existing ++ update))
      | Create create \<Rightarrow> Inr (createTiddler c user t (create ''type'') create))"

text \<open>The updater as a closure that captures no variable.\<close>

definition asUpdater :: "(Tiddler option \<Rightarrow> error + Tiddler) \<Rightarrow> 'l Updater" where
  "asUpdater f existingTiddler l =
     (case f existingTiddler of Inl e \<Rightarrow> (Inl e, l) | Inr v \<Rightarrow> (Inr (Some v), l))"

section \<open>The facade\<close>

definition readFromBag ::
  "'s Collaborators \<Rightarrow> ('s, unit) TiddlerPersistence \<Rightarrow> User \<Rightarrow> TiddlerNamespace
     \<Rightarrow> string option \<Rightarrow> 's \<Rightarrow> (error + MaybeArray) \<times> 's" where
  "readFromBag c p user ns t s =
     (case runTransaction p user (\<lambda>persistence (s, l).
        (case verifyReadAccess c s user (wiki ns) [bag ns] of
           [] \<Rightarrow> (Inl (TypeError ''readPermission[0] is undefined''), s, l)
         | readPermission # _ \<Rightarrow>
             if allowed readPermission then
               (let tiddlers = (if truthy t then readDocs persistence [(ns, the t)] s
                                else readCollections persistence [ns] s)
                in if truthy t then
                     (case tiddlers of
                        [] \<Rightarrow> (Inl (HTTPError (''Tiddler '' @ the t @ '' not found in wiki '' @ wiki ns
                                 @ '' bag '' @ bag ns) HTTP_NOT_FOUND), s, l)
                      | x # _ \<Rightarrow> (Inr (Single x), s, l))
                   else (Inr (Array tiddlers), s, l))
             else (Inl (HTTPError (''Tiddler read denied '' @ reasonOrEmpty readPermission)
                     HTTP_FORBIDDEN), s, l))) (s, ())
      of (r, s', _) \<Rightarrow> (r, s'))"

definition readFromRecipe ::
  "'s Collaborators \<Rightarrow> ('s, unit) TiddlerPersistence \<Rightarrow> User \<Rightarrow> NamespacedRecipe
     \<Rightarrow> string option \<Rightarrow> 's \<Rightarrow> (error + MaybeArray) \<times> 's" where
  "readFromRecipe c p user namespacedRecipe t s =
     (case runTransaction p user (\<lambda>persistence (s, l).
        (case getRecipeBags c user ReadMode s namespacedRecipe of
           None \<Rightarrow> (Inl (HTTPError (''Recipe '' @ recipe namespacedRecipe @ '' not found in wiki ''
                     @ recipe_wiki namespacedRecipe) HTTP_NOT_FOUND), s, l)
         | Some bags \<Rightarrow>
             (let readPermissions = verifyReadAccess c s user (recipe_wiki namespacedRecipe) bags
              in if \<not> list_all allowed readPermissions then
                   (Inl (HTTPError (''At least one bag referenced by recipe ''
                      @ recipe namespacedRecipe @ '' in wiki '' @ recipe_wiki namespacedRecipe
                      @ '' is not readable. Errors: ''
                      @ join '', '' (map the (filter truthy (map reason readPermissions))))
                      HTTP_NOT_FOUND), s, l)
                 else
                   (let tiddlers = readCollections persistence
                          (map (\<lambda>b. \<lparr>wiki = recipe_wiki namespacedRecipe, bag = b\<rparr>) bags) s
                    in if truthy t then
                         (case getFirst tiddlers (the t) of
                            None \<Rightarrow> (Inl (HTTPError (''Tiddler '' @ the t @ '' not found in wiki ''
                                      @ recipe_wiki namespacedRecipe @ '' recipe ''
                                      @ recipe namespacedRecipe) HTTP_NOT_FOUND), s, l)
                          | Some tiddler \<Rightarrow> (Inr (Single tiddler), s, l))
                       else (Inr (Array (deduplicate tiddlers)), s, l))))) (s, ())
      of (r, s', _) \<Rightarrow> (r, s'))"

definition writeToBag ::
  "'s Collaborators \<Rightarrow> ('s, unit) TiddlerPersistence \<Rightarrow> User \<Rightarrow> TiddlerNamespace \<Rightarrow> string
     \<Rightarrow> TiddlerUpdateOrCreate \<Rightarrow> 's \<Rightarrow> (error + NamespacedTiddler) \<times> 's" where
  "writeToBag c p user ns t updateOrCreate s =
     (case runTransaction p user (\<lambda>persistence (s, l).
        (case getWriteableBag c s user (wiki ns) [bag ns] t (getTiddlerData updateOrCreate) of
           [] \<Rightarrow> (Inl (TypeError ''writePermission[0] is undefined''), s, l)
         | writePermission # _ \<Rightarrow>
             if allowed writePermission then
               updateDoc persistence ns t (asUpdater (getUpdater c user t updateOrCreate))
                 (getExpectedRevision updateOrCreate) (s, l)
             else (Inl (HTTPError (''Tiddler write denied '' @ reasonOrEmpty writePermission)
                     HTTP_FORBIDDEN), s, l))) (s, ())
      of (Inl e, s', _) \<Rightarrow> (Inl e, s')
       | (Inr None, s', _) \<Rightarrow> (Inl (Error ''Result of write transaction should not be null''), s')
       | (Inr (Some txResult), s', _) \<Rightarrow> (Inr txResult, s'))"

text \<open>
  \<open>writeToRecipe\<close> ends in \<open>return txResult!\<close>: the non-null assertion is erased at run
  time, so the result of the transaction is returned as it is, \<open>undefined\<close> (\<open>None\<close>)
  included.
\<close>

definition writeToRecipe ::
  "'s Collaborators \<Rightarrow> ('s, unit) TiddlerPersistence \<Rightarrow> User \<Rightarrow> NamespacedRecipe \<Rightarrow> string
     \<Rightarrow> TiddlerUpdateOrCreate \<Rightarrow> 's \<Rightarrow> (error + NamespacedTiddler option) \<times> 's" where
  "writeToRecipe c p user namespacedRecipe t updateOrCreate s =
     (case runTransaction p user (\<lambda>persistence (s, l).
        (case getRecipeBags c user WriteMode s namespacedRecipe of
           None \<Rightarrow> (Inl (HTTPError (''Recipe '' @ recipe namespacedRecipe @ '' not found in wiki ''
                     @ recipe_wiki namespacedRecipe) HTTP_NOT_FOUND), s, l)
         | Some bags \<Rightarrow>
             (let permissions = getWriteableBag c s user (recipe_wiki namespacedRecipe) bags t
                                  (getTiddlerData updateOrCreate)
              in case find allowed permissions of
                   None \<Rightarrow>
                     (Inl (HTTPError (''No bags in wiki '' @ recipe_wiki namespacedRecipe
                        @ '' recipe '' @ recipe namespacedRecipe
                        @ '' found which can be written to. Errors: ''
                        @ join '', '' (map (\<lambda>p. the (reason p))
                                        (filter (\<lambda>p. truthy (reason p)) permissions)))
                        HTTP_FORBIDDEN), s, l)
                 | Some bagToWrite \<Rightarrow>
                     updateDoc persistence
                       \<lparr>wiki = recipe_wiki namespacedRecipe, bag = perm_bag bagToWrite\<rparr> t
                       (asUpdater (getUpdater c user t updateOrCreate))
                       (getExpectedRevision updateOrCreate) (s, l)))) (s, ())
      of (txResult, s', _) \<Rightarrow> (txResult, s'))"

text \<open>
  The updater of \<open>removeFromBag\<close> assigns the captured variable \<open>tiddlerExisted\<close> and
  returns \<open>undefined\<close>.
\<close>

definition removeUpdater :: "bool Updater" where
  "removeUpdater tiddler tiddlerExisted = (Inr None, tiddler \<noteq> None)"

definition removeFromBag ::
  "'s Collaborators \<Rightarrow> ('s, bool) TiddlerPersistence \<Rightarrow> User \<Rightarrow> TiddlerNamespace \<Rightarrow> string
     \<Rightarrow> Revision \<Rightarrow> 's \<Rightarrow> (error + bool) \<times> 's" where
  "removeFromBag c p user ns t expectedRevision s =
     (let tiddlerExisted = False
      in case runTransaction p user (\<lambda>persistence (s, tiddlerExisted).
           (case verifyRemoveAccess c s user (wiki ns) [bag ns] of
              [] \<Rightarrow> (Inl (TypeError ''writePermission[0] is undefined''), s, tiddlerExisted)
            | writePermission # _ \<Rightarrow>
                if allowed writePermission then
                  updateDoc persistence ns t removeUpdater (Some expectedRevision)
                    (s, tiddlerExisted)
                else (Inl (HTTPError (''Tiddler remove denied '' @ reasonOrEmpty writePermission)
                        HTTP_FORBIDDEN), s, tiddlerExisted))) (s, tiddlerExisted)
         of (Inl e, s', _) \<Rightarrow> (Inl e, s')
          | (Inr _, s', tiddlerExisted) \<Rightarrow> (Inr tiddlerExisted, s'))"

section \<open>A reference persistence\<close>

text \<open>
  The persistence engine is not part of this file. The reference persistence keeps the
  stored records in a list; a bag holds at most one record per title.
\<close>

definition stored :: "TiddlerNamespace \<Rightarrow> string \<Rightarrow> NamespacedTiddler \<Rightarrow> bool" where
  "stored ns t r = (namespace r = ns \<and> title r = t)"

text \<open>
  Modelled from the spec: \<open>readDocs\<close> of the persistence engine (not in this
  file), the record of each key that is stored.
\<close>

definition specReadDocs ::
  "(TiddlerNamespace \<times> string) list \<Rightarrow> NamespacedTiddler list \<Rightarrow> NamespacedTiddler list" where
  "specReadDocs keys s = concat (map (\<lambda>(ns, t). filter (stored ns t) s) keys)"

text \<open>
  Modelled from the spec: \<open>readCollections\<close> of the persistence engine (not in
  this file), the records of the partitions in the order of the partitions supplied.
\<close>

definition specReadCollections ::
  "TiddlerNamespace list \<Rightarrow> NamespacedTiddler list \<Rightarrow> NamespacedTiddler list" where
  "specReadCollections nss s = concat (map (\<lambda>ns. filter (\<lambda>r. namespace r = ns) s) nss)"

text \<open>
  Modelled from the spec: \<open>updateDoc\<close> of the persistence engine (not in this
  file), the compare-and-swap. It fails Conflict when an expected revision is supplied and
  differs from the stored one (where nothing is stored there is no revision to differ
  from); otherwise it calls the updater once on the current value, stores and returns the
  new record when the updater yields a value, and deletes and returns nothing when it
  yields absence. The revision of a new record is generated by \<open>newRevision\<close>.
\<close>

definition specUpdateDoc ::
  "(NamespacedTiddler list \<Rightarrow> Revision) \<Rightarrow> TiddlerNamespace \<Rightarrow> string \<Rightarrow> 'l Updater
     \<Rightarrow> Revision option \<Rightarrow> NamespacedTiddler list \<times> 'l
     \<Rightarrow> (error + NamespacedTiddler option) \<times> NamespacedTiddler list \<times> 'l" where
  "specUpdateDoc newRevision ns t updater expectedRevision w =
     (case w of (s, l) \<Rightarrow>
        (let current = find (stored ns t) s
         in if (case (expectedRevision, current) of
                  (Some e, Some r) \<Rightarrow> revision r \<noteq> e
                | _ \<Rightarrow> False)
            then (Inl (HTTPError (''Revision conflict on tiddler '' @ t) HTTP_CONFLICT), s, l)
            else (case updater (map_option tvalue current) l of
                    (Inl e, l') \<Rightarrow> (Inl e, s, l')
                  | (Inr None, l') \<Rightarrow> (Inr None, filter (\<lambda>r. \<not> stored ns t r) s, l')
                  | (Inr (Some v), l') \<Rightarrow>
                      (let r = \<lparr>namespace = ns, title = t, tvalue = v,
                                revision = newRevision s\<rparr>
                       in (Inr (Some r), filter (\<lambda>r. \<not> stored ns t r) s @ [r], l')))))"

definition specPersistence ::
  "(NamespacedTiddler list \<Rightarrow> Revision) \<Rightarrow> (NamespacedTiddler list, 'l) TiddlerPersistence" where
  "specPersistence newRevision =
     \<lparr>readDocs = specReadDocs, readCollections = specReadCollections,
      updateDoc = specUpdateDoc newRevision\<rparr>"

text \<open>The record titled \<open>t\<close> that bag \<open>b\<close> of wiki \<open>w\<close> holds, if any.\<close>

definition inBag ::
  "string \<Rightarrow> string \<Rightarrow> string \<Rightarrow> NamespacedTiddler list \<Rightarrow> NamespacedTiddler option" where
  "inBag w b t s = find (stored \<lparr>wiki = w, bag = b\<rparr> t) s"

text \<open>The errors of a refused call: Forbidden and NotFound.\<close>

definition denial :: "error \<Rightarrow> bool" where
  "denial e = (case e of HTTPError _ status \<Rightarrow> status = HTTP_FORBIDDEN \<or> status = HTTP_NOT_FOUND
                | _ \<Rightarrow> False)"

section \<open>An example wiki\<close>

text \<open>
  Collaborators for the examples: the recipes are a table, one policy answers the read,
  write and remove checks for each bag, and the factory adds title and creator to the
  creation fields.
\<close>

definition allow :: "string \<Rightarrow> Permission" where
  "allow b = \<lparr>perm_bag = b, allowed = True, reason = None\<rparr>"

definition deny :: "string \<Rightarrow> string \<Rightarrow> Permission" where
  "deny r b = \<lparr>perm_bag = b, allowed = False, reason = Some r\<rparr>"

definition exampleCollaborators ::
  "(string \<rightharpoonup> string list) \<Rightarrow> (string \<Rightarrow> Permission) \<Rightarrow> 's Collaborators" where
  "exampleCollaborators recipes policy =
     \<lparr>getRecipeBags = (\<lambda>user mode s r. recipes (recipe r)),
      verifyReadAccess = (\<lambda>s user w bags. map policy bags),
      getWriteableBag = (\<lambda>s user w bags t d. map policy bags),
      verifyRemoveAccess = (\<lambda>s user w bags. map policy bags),
      createTiddler = (\<lambda>user t ty fields.
         fields(''title'' \<mapsto> FString t, ''creator'' \<mapsto> FString user))\<rparr>"

definition doc :: "string \<Rightarrow> string \<Rightarrow> string \<Rightarrow> string \<Rightarrow> NamespacedTiddler" where
  "doc b t txt r =
     \<lparr>namespace = \<lparr>wiki = ''w'', bag = b\<rparr>, title = t, tvalue = [''text'' \<mapsto> FString txt],
      revision = r\<rparr>"

definition countRevision :: "NamespacedTiddler list \<Rightarrow> Revision" where
  "countRevision s = replicate (Suc (length s)) CHR ''r''"

section \<open>Facts about the helpers\<close>

lemmas example_defs = exampleCollaborators_def specPersistence_def specReadCollections_def
  specReadDocs_def specUpdateDoc_def runTransaction_def allow_def deny_def doc_def stored_def
  truthy_def reasonOrEmpty_def getFirst_def asUpdater_def getUpdater_def
  getExpectedRevision_def getTiddlerData_def countRevision_def

lemma deduplicate_loop_all: "deduplicate_loop {} acc xs = acc @ xs"
  by (induction xs arbitrary: acc) simp_all

lemma deduplicate_keeps_all: "deduplicate xs = xs"
  by (simp add: deduplicate_def deduplicate_loop_all)

lemma find_append_cases:
  "find P (xs @ ys) = (case find P xs of None \<Rightarrow> find P ys | Some x \<Rightarrow> Some x)"
  by (induction xs) auto

lemma find_filter_conj: "find P (filter Q xs) = find (\<lambda>x. Q x \<and> P x) xs"
  by (induction xs) auto

lemma find_first_index:
  "find P xs = Some q \<Longrightarrow> \<exists>i<length xs. xs ! i = q \<and> P q \<and> (\<forall>j<i. \<not> P (xs ! j))"
  by (auto simp: find_Some_iff)

lemma find_None_all: "(\<forall>p\<in>set xs. \<not> P p) \<Longrightarrow> find P xs = None"
  by (simp add: find_None_iff)

subsection \<open>The reference persistence\<close>

lemma filter_stored_after_put:
  "filter (stored ns t) (filter (\<lambda>r. \<not> stored ns t r) s @ [r])
     = (if stored ns t r then [r] else [])"
  by (induction s) auto

lemma specUpdateDoc_frame:
  "specUpdateDoc newRevision ns t u e (s, l) = (res, s', l')
     \<Longrightarrow> filter (\<lambda>x. \<not> stored ns t x) s' = filter (\<lambda>x. \<not> stored ns t x) s"
  by (auto simp: specUpdateDoc_def Let_def stored_def
      split: if_splits prod.splits sum.splits option.splits)

lemma specUpdateDoc_write:
  "specUpdateDoc newRevision ns t (asUpdater f) e (s, l) = (res, s', l')
     \<Longrightarrow> res \<noteq> Inr None \<and> (\<forall>x. res = Inr (Some x) \<longrightarrow>
           namespace x = ns \<and> title x = t \<and> specReadDocs [(ns, t)] s' = [x])"
  by (auto simp: specUpdateDoc_def Let_def asUpdater_def specReadDocs_def
      filter_stored_after_put stored_def split: if_splits prod.splits sum.splits option.splits)

text \<open>A read of several bags finds a title in the first bag, in their order, that holds it.\<close>

lemma getFirst_one_bag:
  "getFirst (filter (\<lambda>r. namespace r = \<lparr>wiki = w, bag = b\<rparr>) s) t = inBag w b t s"
proof -
  have "(\<lambda>x. namespace x = \<lparr>wiki = w, bag = b\<rparr> \<and> title x = t) = stored \<lparr>wiki = w, bag = b\<rparr> t"
    by (rule ext) (simp add: stored_def)
  then show ?thesis
    by (simp add: getFirst_def inBag_def find_filter_conj)
qed

lemma getFirst_collections_Nil:
  "getFirst (specReadCollections (map (\<lambda>b. \<lparr>wiki = w, bag = b\<rparr>) []) s) t = None"
  by (simp add: specReadCollections_def getFirst_def)

lemma getFirst_collections_Cons:
  "getFirst (specReadCollections (map (\<lambda>b. \<lparr>wiki = w, bag = b\<rparr>) (b # bs)) s) t
     = (case inBag w b t s of
          None \<Rightarrow> getFirst (specReadCollections (map (\<lambda>b. \<lparr>wiki = w, bag = b\<rparr>) bs) s) t
        | Some x \<Rightarrow> Some x)"
proof -
  have "getFirst (specReadCollections (map (\<lambda>b. \<lparr>wiki = w, bag = b\<rparr>) (b # bs)) s) t
      = (case getFirst (filter (\<lambda>r. namespace r = \<lparr>wiki = w, bag = b\<rparr>) s) t of
          None \<Rightarrow> getFirst (specReadCollections (map (\<lambda>b. \<lparr>wiki = w, bag = b\<rparr>) bs) s) t
        | Some x \<Rightarrow> Some x)"
    by (simp add: specReadCollections_def getFirst_def find_append_cases comp_def
        split: option.splits)
  then show ?thesis
    by (simp only: getFirst_one_bag)
qed

lemma getFirst_none:
  "(\<forall>b\<in>set bags. inBag w b t s = None)
     \<Longrightarrow> getFirst (specReadCollections (map (\<lambda>b. \<lparr>wiki = w, bag = b\<rparr>) bags) s) t = None"
proof (induction bags)
  case Nil
  show ?case by (rule getFirst_collections_Nil)
next
  case (Cons b bs)
  then show ?case by (simp add: getFirst_collections_Cons del: list.map)
qed

lemma getFirst_first_bag:
  "(\<forall>b\<in>set pre. inBag w b t s = None) \<Longrightarrow> inBag w b t s = Some x
     \<Longrightarrow> getFirst (specReadCollections (map (\<lambda>b. \<lparr>wiki = w, bag = b\<rparr>) (pre @ b # post)) s) t
           = Some x"
proof (induction pre)
  case Nil
  then show ?case by (simp add: getFirst_collections_Cons del: list.map)
next
  case (Cons a pre)
  then show ?case by (simp add: getFirst_collections_Cons del: list.map)
qed

subsection \<open>The facade after its checks\<close>

lemma readFromRecipe_title:
  assumes "getRecipeBags c user ReadMode s r = Some bags"
    and "list_all allowed (verifyReadAccess c s user (recipe_wiki r) bags)"
    and "t \<noteq> []"
  shows "readFromRecipe c (specPersistence newRevision) user r (Some t) s
     = (case getFirst (specReadCollections (map (\<lambda>b. \<lparr>wiki = recipe_wiki r, bag = b\<rparr>) bags) s) t of
          None \<Rightarrow> (Inl (HTTPError (''Tiddler '' @ t @ '' not found in wiki '' @ recipe_wiki r
                     @ '' recipe '' @ recipe r) HTTP_NOT_FOUND), s)
        | Some x \<Rightarrow> (Inr (Single x), s))"
  using assms
  by (simp add: readFromRecipe_def runTransaction_def specPersistence_def truthy_def Let_def
      split: option.splits)

lemma writeToRecipe_resolved:
  "getRecipeBags c user WriteMode s r = Some bags \<Longrightarrow>
   writeToRecipe c P user r t uoc s =
     (case find allowed (getWriteableBag c s user (recipe_wiki r) bags t (getTiddlerData uoc)) of
        None \<Rightarrow> (Inl (HTTPError (''No bags in wiki '' @ recipe_wiki r @ '' recipe '' @ recipe r
                  @ '' found which can be written to. Errors: ''
                  @ join '', '' (map (\<lambda>p. the (reason p)) (filter (\<lambda>p. truthy (reason p))
                      (getWriteableBag c s user (recipe_wiki r) bags t (getTiddlerData uoc)))))
                  HTTP_FORBIDDEN), s)
      | Some bagToWrite \<Rightarrow>
          (case updateDoc P \<lparr>wiki = recipe_wiki r, bag = perm_bag bagToWrite\<rparr> t
                  (asUpdater (getUpdater c user t uoc)) (getExpectedRevision uoc) (s, ()) of
             (res, s', _) \<Rightarrow> (res, s')))"
  by (simp add: writeToRecipe_def runTransaction_def Let_def split: option.splits)

section \<open>Reading through a recipe\<close>

text \<open>
  C1. A read through a recipe without a title should return one record per title, the one
  of the earliest bag. With bags \<open>[A, B]\<close>, title \<open>X\<close> in both and \<open>Y\<close> in \<open>B\<close> only,
  \<open>readFromRecipe\<close> returns three records: \<open>deduplicate\<close> never fills its set of
  encountered titles, so the record of \<open>X\<close> in \<open>B\<close> is kept next to the one in \<open>A\<close>.
\<close>

theorem readFromRecipe_keeps_shadowed_records:
  "readFromRecipe (exampleCollaborators [''r'' \<mapsto> [''A'', ''B'']] allow)
       (specPersistence countRevision) ''alice'' \<lparr>recipe_wiki = ''w'', recipe = ''r''\<rparr> None
       [doc ''A'' ''X'' ''a'' ''1'', doc ''B'' ''X'' ''b'' ''2'', doc ''B'' ''Y'' ''c'' ''3'']
   = (Inr (Array [doc ''A'' ''X'' ''a'' ''1'', doc ''B'' ''X'' ''b'' ''2'',
                  doc ''B'' ''Y'' ''c'' ''3'']),
      [doc ''A'' ''X'' ''a'' ''1'', doc ''B'' ''X'' ''b'' ''2'', doc ''B'' ''Y'' ''c'' ''3''])"
  by (simp add: readFromRecipe_def deduplicate_keeps_all example_defs)

text \<open>
  C2. A read through a recipe with a bag that is not readable should fail Forbidden, with
  the reasons of the denials in the message. With bags \<open>[A, B]\<close> and \<open>B\<close> denied,
  \<open>readFromRecipe\<close> fails with the reasons in the message, and with status
  \<open>HTTP_NOT_FOUND\<close>.
\<close>

theorem readFromRecipe_denied_is_not_found:
  "readFromRecipe (exampleCollaborators [''r'' \<mapsto> [''A'', ''B'']]
         (\<lambda>b. if b = ''A'' then allow b else deny ''B is private'' b))
       (specPersistence countRevision) ''alice'' \<lparr>recipe_wiki = ''w'', recipe = ''r''\<rparr> None
       [doc ''A'' ''X'' ''a'' ''1'']
   = (Inl (HTTPError
        ''At least one bag referenced by recipe r in wiki w is not readable. Errors: B is private''
        HTTP_NOT_FOUND),
      [doc ''A'' ''X'' ''a'' ''1''])"
  by (simp add: readFromRecipe_def example_defs)

text \<open>
  C8 as stated. A read through a recipe with a title should return the matching record or
  fail NotFound. The title is tested as a condition, and the empty string is a title that
  counts as none: the read returns the list of all records.
\<close>

theorem readFromRecipe_empty_title_lists:
  "readFromRecipe (exampleCollaborators [''r'' \<mapsto> [''A'', ''B'']] allow)
       (specPersistence countRevision) ''alice'' \<lparr>recipe_wiki = ''w'', recipe = ''r''\<rparr> (Some [])
       [doc ''A'' ''X'' ''a'' ''1'']
   = (Inr (Array [doc ''A'' ''X'' ''a'' ''1'']), [doc ''A'' ''X'' ''a'' ''1''])"
  by (simp add: readFromRecipe_def deduplicate_keeps_all example_defs)

text \<open>
  C8, amended. For every read through a recipe with a non-empty title whose resolved bags
  are all readable: when some resolved bag holds the title, the call returns the record of
  the earliest such bag in resolution order (no bag before it holds the title); when none
  does, it fails NotFound.
\<close>

theorem readFromRecipe_title_first_match:
  assumes "getRecipeBags c user ReadMode s r = Some bags"
    and "list_all allowed (verifyReadAccess c s user (recipe_wiki r) bags)"
    and "t \<noteq> []"
  shows "((\<exists>b\<in>set bags. inBag (recipe_wiki r) b t s \<noteq> None) \<longrightarrow>
           (\<exists>pre b post x. bags = pre @ b # post
              \<and> (\<forall>b'\<in>set pre. inBag (recipe_wiki r) b' t s = None)
              \<and> inBag (recipe_wiki r) b t s = Some x
              \<and> readFromRecipe c (specPersistence newRevision) user r (Some t) s
                  = (Inr (Single x), s)))
       \<and> ((\<forall>b\<in>set bags. inBag (recipe_wiki r) b t s = None) \<longrightarrow>
           readFromRecipe c (specPersistence newRevision) user r (Some t) s
             = (Inl (HTTPError (''Tiddler '' @ t @ '' not found in wiki '' @ recipe_wiki r
                  @ '' recipe '' @ recipe r) HTTP_NOT_FOUND), s))"
proof (intro conjI impI)
  assume "\<exists>b\<in>set bags. inBag (recipe_wiki r) b t s \<noteq> None"
  then obtain pre b post where split: "bags = pre @ b # post"
    and hit: "inBag (recipe_wiki r) b t s \<noteq> None"
    and miss: "\<forall>b'\<in>set pre. \<not> inBag (recipe_wiki r) b' t s \<noteq> None"
    using split_list_first_prop [of bags "\<lambda>b. inBag (recipe_wiki r) b t s \<noteq> None"] by blast
  from hit obtain x where x: "inBag (recipe_wiki r) b t s = Some x" by blast
  from miss have miss': "\<forall>b'\<in>set pre. inBag (recipe_wiki r) b' t s = None" by simp
  have "getFirst (specReadCollections (map (\<lambda>b. \<lparr>wiki = recipe_wiki r, bag = b\<rparr>) bags) s) t
          = Some x"
    unfolding split by (rule getFirst_first_bag [OF miss' x])
  then have "readFromRecipe c (specPersistence newRevision) user r (Some t) s
               = (Inr (Single x), s)"
    by (simp add: readFromRecipe_title [OF assms])
  with split miss' x show "\<exists>pre b post x. bags = pre @ b # post
              \<and> (\<forall>b'\<in>set pre. inBag (recipe_wiki r) b' t s = None)
              \<and> inBag (recipe_wiki r) b t s = Some x
              \<and> readFromRecipe c (specPersistence newRevision) user r (Some t) s
                  = (Inr (Single x), s)" by blast
next
  assume "\<forall>b\<in>set bags. inBag (recipe_wiki r) b t s = None"
  then have "getFirst (specReadCollections (map (\<lambda>b. \<lparr>wiki = recipe_wiki r, bag = b\<rparr>) bags) s) t
               = None"
    by (rule getFirst_none)
  then show "readFromRecipe c (specPersistence newRevision) user r (Some t) s
             = (Inl (HTTPError (''Tiddler '' @ t @ '' not found in wiki '' @ recipe_wiki r
                  @ '' recipe '' @ recipe r) HTTP_NOT_FOUND), s)"
    by (simp add: readFromRecipe_title [OF assms])
qed

text \<open>
  With bags \<open>[A, B]\<close> that both hold \<open>X\<close>, the read of \<open>X\<close> returns the record of \<open>A\<close>;
  the read of \<open>Z\<close>, which no bag holds, fails NotFound.
\<close>

theorem readFromRecipe_title_first_match_witness:
  "getRecipeBags (exampleCollaborators [''r'' \<mapsto> [''A'', ''B'']] allow) ''alice'' ReadMode
       [doc ''B'' ''X'' ''b'' ''2'', doc ''A'' ''X'' ''a'' ''1'']
       \<lparr>recipe_wiki = ''w'', recipe = ''r''\<rparr> = Some [''A'', ''B'']
   \<and> list_all allowed (verifyReadAccess (exampleCollaborators [''r'' \<mapsto> [''A'', ''B'']] allow)
       [doc ''B'' ''X'' ''b'' ''2'', doc ''A'' ''X'' ''a'' ''1''] ''alice'' ''w'' [''A'', ''B''])
   \<and> ''X'' \<noteq> [] \<and> ''Z'' \<noteq> []
   \<and> (\<exists>b\<in>set [''A'', ''B''].
         inBag ''w'' b ''X'' [doc ''B'' ''X'' ''b'' ''2'', doc ''A'' ''X'' ''a'' ''1''] \<noteq> None)
   \<and> readFromRecipe (exampleCollaborators [''r'' \<mapsto> [''A'', ''B'']] allow)
       (specPersistence countRevision) ''alice'' \<lparr>recipe_wiki = ''w'', recipe = ''r''\<rparr> (Some ''X'')
       [doc ''B'' ''X'' ''b'' ''2'', doc ''A'' ''X'' ''a'' ''1'']
     = (Inr (Single (doc ''A'' ''X'' ''a'' ''1'')),
        [doc ''B'' ''X'' ''b'' ''2'', doc ''A'' ''X'' ''a'' ''1''])
   \<and> inBag ''w'' ''A'' ''Z'' [doc ''B'' ''X'' ''b'' ''2'', doc ''A'' ''X'' ''a'' ''1''] = None
   \<and> inBag ''w'' ''B'' ''Z'' [doc ''B'' ''X'' ''b'' ''2'', doc ''A'' ''X'' ''a'' ''1''] = None
   \<and> readFromRecipe (exampleCollaborators [''r'' \<mapsto> [''A'', ''B'']] allow)
       (specPersistence countRevision) ''alice'' \<lparr>recipe_wiki = ''w'', recipe = ''r''\<rparr> (Some ''Z'')
       [doc ''B'' ''X'' ''b'' ''2'', doc ''A'' ''X'' ''a'' ''1'']
     = (Inl (HTTPError ''Tiddler Z not found in wiki w recipe r'' HTTP_NOT_FOUND),
        [doc ''B'' ''X'' ''b'' ''2'', doc ''A'' ''X'' ''a'' ''1''])"
  using readFromRecipe_title_first_match [of
      "exampleCollaborators [''r'' \<mapsto> [''A'', ''B'']] allow" "''alice''"
      "[doc ''B'' ''X'' ''b'' ''2'', doc ''A'' ''X'' ''a'' ''1'']"
      "\<lparr>recipe_wiki = ''w'', recipe = ''r''\<rparr>" "[''A'', ''B'']" "''X''" countRevision]
    readFromRecipe_title_first_match [of
      "exampleCollaborators [''r'' \<mapsto> [''A'', ''B'']] allow" "''alice''"
      "[doc ''B'' ''X'' ''b'' ''2'', doc ''A'' ''X'' ''a'' ''1'']"
      "\<lparr>recipe_wiki = ''w'', recipe = ''r''\<rparr>" "[''A'', ''B'']" "''Z''" countRevision]
  by (simp add: readFromRecipe_def inBag_def example_defs)

text \<open>
  C4 as stated. A recipe that resolves to the empty list should fail NotFound like one
  that does not resolve. The check is \<open>!bags\<close>, which an empty array passes: the read
  without a title returns the empty list, and the write fails Forbidden for want of a
  writable bag.
\<close>

theorem recipe_empty_list_not_rejected:
  "getRecipeBags (exampleCollaborators [''r'' \<mapsto> []] allow) ''alice'' ReadMode
       [doc ''A'' ''X'' ''a'' ''1''] \<lparr>recipe_wiki = ''w'', recipe = ''r''\<rparr> = Some []
   \<and> readFromRecipe (exampleCollaborators [''r'' \<mapsto> []] allow) (specPersistence countRevision)
       ''alice'' \<lparr>recipe_wiki = ''w'', recipe = ''r''\<rparr> None [doc ''A'' ''X'' ''a'' ''1'']
     = (Inr (Array []), [doc ''A'' ''X'' ''a'' ''1''])
   \<and> writeToRecipe (exampleCollaborators [''r'' \<mapsto> []] allow) (specPersistence countRevision)
       ''alice'' \<lparr>recipe_wiki = ''w'', recipe = ''r''\<rparr> ''X''
       (Create [''text'' \<mapsto> FString ''a'']) [doc ''A'' ''X'' ''a'' ''1'']
     = (Inl (HTTPError ''No bags in wiki w recipe r found which can be written to. Errors: ''
          HTTP_FORBIDDEN), [doc ''A'' ''X'' ''a'' ''1''])"
  by (simp add: readFromRecipe_def writeToRecipe_def deduplicate_keeps_all example_defs)

text \<open>
  C4, amended. For every call to \<open>readFromRecipe\<close> or \<open>writeToRecipe\<close>, if the recipe
  resolver yields the absent sentinel, the call fails with NotFound (recipe not found) and
  leaves the state as it was.
\<close>

theorem recipe_absent_not_found:
  "(getRecipeBags c user ReadMode s r = None \<longrightarrow>
      readFromRecipe c p user r t s
        = (Inl (HTTPError (''Recipe '' @ recipe r @ '' not found in wiki '' @ recipe_wiki r)
             HTTP_NOT_FOUND), s))
   \<and> (getRecipeBags c user WriteMode s r = None \<longrightarrow>
      writeToRecipe c p user r t' updateOrCreate s
        = (Inl (HTTPError (''Recipe '' @ recipe r @ '' not found in wiki '' @ recipe_wiki r)
             HTTP_NOT_FOUND), s))"
  by (simp add: readFromRecipe_def writeToRecipe_def runTransaction_def)

theorem recipe_absent_not_found_witness:
  "getRecipeBags (exampleCollaborators [''r'' \<mapsto> [''A'']] allow) ''alice'' ReadMode
       [doc ''A'' ''X'' ''a'' ''1''] \<lparr>recipe_wiki = ''w'', recipe = ''q''\<rparr> = None
   \<and> readFromRecipe (exampleCollaborators [''r'' \<mapsto> [''A'']] allow) (specPersistence countRevision)
       ''alice'' \<lparr>recipe_wiki = ''w'', recipe = ''q''\<rparr> (Some ''X'') [doc ''A'' ''X'' ''a'' ''1'']
     = (Inl (HTTPError ''Recipe q not found in wiki w'' HTTP_NOT_FOUND),
        [doc ''A'' ''X'' ''a'' ''1''])
   \<and> getRecipeBags (exampleCollaborators [''r'' \<mapsto> [''A'']] allow) ''alice'' WriteMode
       [doc ''A'' ''X'' ''a'' ''1''] \<lparr>recipe_wiki = ''w'', recipe = ''q''\<rparr> = None
   \<and> writeToRecipe (exampleCollaborators [''r'' \<mapsto> [''A'']] allow) (specPersistence countRevision)
       ''alice'' \<lparr>recipe_wiki = ''w'', recipe = ''q''\<rparr> ''X''
       (Create [''text'' \<mapsto> FString ''b'']) [doc ''A'' ''X'' ''a'' ''1'']
     = (Inl (HTTPError ''Recipe q not found in wiki w'' HTTP_NOT_FOUND),
        [doc ''A'' ''X'' ''a'' ''1''])"
  using recipe_absent_not_found [of
      "exampleCollaborators [''r'' \<mapsto> [''A'']] allow" "''alice''"
      "[doc ''A'' ''X'' ''a'' ''1'']" "\<lparr>recipe_wiki = ''w'', recipe = ''q''\<rparr>"
      "specPersistence countRevision" "Some ''X''" "''X''" "Create [''text'' \<mapsto> FString ''b'']"]
  by (simp add: exampleCollaborators_def)

section \<open>The updater\<close>

text \<open>
  C5. The updater of an \<open>update\<close> intent fails BadRequest when there is no current
  tiddler. When there is one, the result is a shallow merge: each top-level field of the
  update replaces the field of that name, whatever its value is, and every other field of
  the current tiddler is kept.
\<close>

theorem getUpdater_update_shallow_merge:
  "getUpdater c user t (Update update e) None
     = Inl (HTTPError (''Tiddler '' @ t @ '' received update, but no such tiddler exists in bag'')
          HTTP_BAD_REQUEST)
   \<and> (\<exists>result. getUpdater c user t (Update update e) (Some existing) = Inr result
        \<and> (\<forall>k. (k \<in> dom update \<longrightarrow> result k = update k)
               \<and> (k \<notin> dom update \<longrightarrow> result k = existing k)))"
  by (auto simp: getUpdater_def map_add_def split: option.splits)

text \<open>
  An update of \<open>text\<close> with an object replaces the whole object under \<open>text\<close> (the field
  \<open>a\<close> inside it is gone) and keeps \<open>tags\<close>.
\<close>

theorem getUpdater_update_shallow_merge_witness:
  "getUpdater (exampleCollaborators Map.empty allow :: unit Collaborators) ''alice'' ''X''
       (Update [''text'' \<mapsto> FObject [(''b'', FNumber 2)]] None) None
     = Inl (HTTPError ''Tiddler X received update, but no such tiddler exists in bag''
          HTTP_BAD_REQUEST)
   \<and> (\<exists>result. getUpdater (exampleCollaborators Map.empty allow :: unit Collaborators)
          ''alice'' ''X'' (Update [''text'' \<mapsto> FObject [(''b'', FNumber 2)]] None)
          (Some [''text'' \<mapsto> FObject [(''a'', FNumber 1)], ''tags'' \<mapsto> FString ''old''])
        = Inr result
        \<and> ''text'' \<in> dom [''text'' \<mapsto> FObject [(''b'', FNumber 2)]]
        \<and> result ''text'' = Some (FObject [(''b'', FNumber 2)])
        \<and> ''tags'' \<notin> dom [''text'' \<mapsto> FObject [(''b'', FNumber 2)]]
        \<and> result ''tags'' = Some (FString ''old''))"
  using getUpdater_update_shallow_merge [of
      "exampleCollaborators Map.empty allow :: unit Collaborators" "''alice''" "''X''"
      "[''text'' \<mapsto> FObject [(''b'', FNumber 2)]]" None
      "[''text'' \<mapsto> FObject [(''a'', FNumber 1)], ''tags'' \<mapsto> FString ''old'']"]
  by (simp add: getUpdater_def)

text \<open>
  C6. The updater of a \<open>create\<close> intent yields the output of the tiddler factory for
  (user, title, declared type, creation fields), whatever the current tiddler is. A write
  to a bag with a \<open>create\<close> intent that is permitted stores and returns a record with
  exactly that value, also over an existing title.
\<close>

theorem getUpdater_create_factory:
  "getUpdater c user t (Create create) existingTiddler
     = Inr (createTiddler c user t (create ''type'') create)
   \<and> (\<forall>writePermission rest.
        getWriteableBag c s user (wiki ns) [bag ns] t create = writePermission # rest
        \<and> allowed writePermission \<longrightarrow>
        (\<exists>r s'. writeToBag c (specPersistence newRevision) user ns t (Create create) s = (Inr r, s')
           \<and> namespace r = ns \<and> title r = t
           \<and> tvalue r = createTiddler c user t (create ''type'') create
           \<and> specReadDocs [(ns, t)] s' = [r]))"
  by (auto simp: getUpdater_def writeToBag_def runTransaction_def getTiddlerData_def
      getExpectedRevision_def specPersistence_def specUpdateDoc_def asUpdater_def Let_def
      specReadDocs_def filter_stored_after_put stored_def)

theorem getUpdater_create_factory_witness:
  "getUpdater (exampleCollaborators Map.empty allow :: NamespacedTiddler list Collaborators)
       ''alice'' ''X'' (Create [''text'' \<mapsto> FString ''new''])
       (Some [''text'' \<mapsto> FString ''old'', ''tags'' \<mapsto> FString ''keep''])
     = Inr [''text'' \<mapsto> FString ''new'', ''title'' \<mapsto> FString ''X'',
            ''creator'' \<mapsto> FString ''alice'']
   \<and> getWriteableBag (exampleCollaborators Map.empty allow) [doc ''A'' ''X'' ''old'' ''1'']
       ''alice'' ''w'' [''A''] ''X'' [''text'' \<mapsto> FString ''new''] = [allow ''A'']
   \<and> allowed (allow ''A'')
   \<and> writeToBag (exampleCollaborators Map.empty allow) (specPersistence countRevision) ''alice''
       \<lparr>wiki = ''w'', bag = ''A''\<rparr> ''X'' (Create [''text'' \<mapsto> FString ''new''])
       [doc ''A'' ''X'' ''old'' ''1'']
     = (Inr \<lparr>namespace = \<lparr>wiki = ''w'', bag = ''A''\<rparr>, title = ''X'',
             tvalue = [''text'' \<mapsto> FString ''new'', ''title'' \<mapsto> FString ''X'',
                       ''creator'' \<mapsto> FString ''alice''], revision = ''rr''\<rparr>,
        [\<lparr>namespace = \<lparr>wiki = ''w'', bag = ''A''\<rparr>, title = ''X'',
             tvalue = [''text'' \<mapsto> FString ''new'', ''title'' \<mapsto> FString ''X'',
                       ''creator'' \<mapsto> FString ''alice''], revision = ''rr''\<rparr>])"
  using getUpdater_create_factory [of
      "exampleCollaborators Map.empty allow :: NamespacedTiddler list Collaborators"
      "''alice''" "''X''" "[''text'' \<mapsto> FString ''new'']"
      "Some [''text'' \<mapsto> FString ''old'', ''tags'' \<mapsto> FString ''keep'']"
      "[doc ''A'' ''X'' ''old'' ''1'']" "\<lparr>wiki = ''w'', bag = ''A''\<rparr>" countRevision]
  by (simp add: writeToBag_def example_defs Let_def)

section \<open>Writing\<close>

text \<open>
  C3. A write whose transaction yields no record should fail with an internal error on
  both write paths. With a persistence whose \<open>updateDoc\<close> yields nothing, \<open>writeToBag\<close>
  fails with its internal error, and \<open>writeToRecipe\<close> returns the missing result as a
  success.
\<close>

theorem writeToRecipe_returns_missing_result:
  "writeToBag (exampleCollaborators [''r'' \<mapsto> [''A'']] allow)
       ((specPersistence countRevision)\<lparr>updateDoc := \<lambda>ns t u e w. (Inr None, w)\<rparr>) ''alice''
       \<lparr>wiki = ''w'', bag = ''A''\<rparr> ''X'' (Create [''text'' \<mapsto> FString ''a'']) []
     = (Inl (Error ''Result of write transaction should not be null''), [])
   \<and> writeToRecipe (exampleCollaborators [''r'' \<mapsto> [''A'']] allow)
       ((specPersistence countRevision)\<lparr>updateDoc := \<lambda>ns t u e w. (Inr None, w)\<rparr>) ''alice''
       \<lparr>recipe_wiki = ''w'', recipe = ''r''\<rparr> ''X'' (Create [''text'' \<mapsto> FString ''a'']) []
     = (Inr None, [])"
  by (simp add: writeToRecipe_def writeToBag_def example_defs)

text \<open>
  C7. A write through a recipe goes to the first bag, in resolution order, whose write
  permission is allowed: the one compare-and-swap of the call targets that bag, every
  record other than the target stays as it was, and a returned record names that bag. When
  no bag is allowed the call fails Forbidden, with the reasons of all permissions in the
  message, and issues no compare-and-swap. The policy checker answers with one permission
  per resolved bag, in order.
\<close>

theorem writeToRecipe_first_writable:
  assumes resolved: "getRecipeBags c user WriteMode s r = Some bags"
    and perms: "perms = getWriteableBag c s user (recipe_wiki r) bags t (getTiddlerData uoc)"
    and parallel: "map perm_bag perms = bags"
  shows "((\<exists>p\<in>set perms. allowed p) \<longrightarrow>
          (\<exists>i<length bags. allowed (perms ! i) \<and> (\<forall>j<i. \<not> allowed (perms ! j))
             \<and> (\<forall>P. writeToRecipe c P user r t uoc s
                     = (case updateDoc P \<lparr>wiki = recipe_wiki r, bag = bags ! i\<rparr> t
                               (asUpdater (getUpdater c user t uoc))
                               (getExpectedRevision uoc) (s, ()) of
                          (res, s', _) \<Rightarrow> (res, s')))
             \<and> (\<forall>res s'. writeToRecipe c (specPersistence newRevision) user r t uoc s = (res, s')
                   \<longrightarrow>
                   filter (\<lambda>x. \<not> stored \<lparr>wiki = recipe_wiki r, bag = bags ! i\<rparr> t x) s'
                     = filter (\<lambda>x. \<not> stored \<lparr>wiki = recipe_wiki r, bag = bags ! i\<rparr> t x) s
                   \<and> res \<noteq> Inr None
                   \<and> (\<forall>x. res = Inr (Some x) \<longrightarrow>
                         namespace x = \<lparr>wiki = recipe_wiki r, bag = bags ! i\<rparr> \<and> title x = t
                         \<and> specReadDocs [(\<lparr>wiki = recipe_wiki r, bag = bags ! i\<rparr>, t)] s'
                             = [x]))))
       \<and> ((\<forall>p\<in>set perms. \<not> allowed p) \<longrightarrow>
          (\<forall>P. writeToRecipe c P user r t uoc s
             = (Inl (HTTPError (''No bags in wiki '' @ recipe_wiki r @ '' recipe '' @ recipe r
                  @ '' found which can be written to. Errors: ''
                  @ join '', '' (map (\<lambda>p. the (reason p))
                                  (filter (\<lambda>p. truthy (reason p)) perms)))
                  HTTP_FORBIDDEN), s)))"
proof (intro conjI impI)
  assume "\<exists>p\<in>set perms. allowed p"
  then obtain q where q: "find allowed perms = Some q"
    by (cases "find allowed perms") (auto simp: find_None_iff)
  then obtain i where i: "i < length perms" "perms ! i = q" "allowed q"
      "\<forall>j<i. \<not> allowed (perms ! j)"
    using find_first_index [of allowed perms q] by blast
  from parallel have "length (map perm_bag perms) = length bags" by simp
  then have len: "length perms = length bags" by simp
  from parallel have "map perm_bag perms ! i = bags ! i" by simp
  with i(1,2) have bag_i: "perm_bag q = bags ! i" by simp
  have run: "writeToRecipe c P user r t uoc s
       = (case updateDoc P \<lparr>wiki = recipe_wiki r, bag = bags ! i\<rparr> t
                 (asUpdater (getUpdater c user t uoc)) (getExpectedRevision uoc) (s, ()) of
            (res, s', _) \<Rightarrow> (res, s'))" for P
    using q bag_i by (simp add: writeToRecipe_resolved [OF resolved] perms [symmetric])
  have landed: "filter (\<lambda>x. \<not> stored \<lparr>wiki = recipe_wiki r, bag = bags ! i\<rparr> t x) s'
                     = filter (\<lambda>x. \<not> stored \<lparr>wiki = recipe_wiki r, bag = bags ! i\<rparr> t x) s
                   \<and> res \<noteq> Inr None
                   \<and> (\<forall>x. res = Inr (Some x) \<longrightarrow>
                         namespace x = \<lparr>wiki = recipe_wiki r, bag = bags ! i\<rparr> \<and> title x = t
                         \<and> specReadDocs [(\<lparr>wiki = recipe_wiki r, bag = bags ! i\<rparr>, t)] s'
                             = [x])"
    if w: "writeToRecipe c (specPersistence newRevision) user r t uoc s = (res, s')" for res s'
  proof -
    from w have u: "specUpdateDoc newRevision \<lparr>wiki = recipe_wiki r, bag = bags ! i\<rparr> t
        (asUpdater (getUpdater c user t uoc)) (getExpectedRevision uoc) (s, ()) = (res, s', ())"
      by (simp add: run specPersistence_def split: prod.splits)
    from specUpdateDoc_frame [OF u] specUpdateDoc_write [OF u]
    show ?thesis by (rule conjI)
  qed
  show "\<exists>i<length bags. allowed (perms ! i) \<and> (\<forall>j<i. \<not> allowed (perms ! j))
             \<and> (\<forall>P. writeToRecipe c P user r t uoc s
                     = (case updateDoc P \<lparr>wiki = recipe_wiki r, bag = bags ! i\<rparr> t
                               (asUpdater (getUpdater c user t uoc))
                               (getExpectedRevision uoc) (s, ()) of
                          (res, s', _) \<Rightarrow> (res, s')))
             \<and> (\<forall>res s'. writeToRecipe c (specPersistence newRevision) user r t uoc s = (res, s')
                   \<longrightarrow>
                   filter (\<lambda>x. \<not> stored \<lparr>wiki = recipe_wiki r, bag = bags ! i\<rparr> t x) s'
                     = filter (\<lambda>x. \<not> stored \<lparr>wiki = recipe_wiki r, bag = bags ! i\<rparr> t x) s
                   \<and> res \<noteq> Inr None
                   \<and> (\<forall>x. res = Inr (Some x) \<longrightarrow>
                         namespace x = \<lparr>wiki = recipe_wiki r, bag = bags ! i\<rparr> \<and> title x = t
                         \<and> specReadDocs [(\<lparr>wiki = recipe_wiki r, bag = bags ! i\<rparr>, t)] s'
                             = [x]))"
  proof (rule exI [of _ i], intro conjI)
    show "i < length bags" using i(1) len by simp
    show "allowed (perms ! i)" using i(2,3) by simp
    show "\<forall>j<i. \<not> allowed (perms ! j)" by (rule i(4))
    show "\<forall>P. writeToRecipe c P user r t uoc s
            = (case updateDoc P \<lparr>wiki = recipe_wiki r, bag = bags ! i\<rparr> t
                      (asUpdater (getUpdater c user t uoc))
                      (getExpectedRevision uoc) (s, ()) of
                 (res, s', _) \<Rightarrow> (res, s'))"
      by (intro allI) (rule run)
    show "\<forall>res s'. writeToRecipe c (specPersistence newRevision) user r t uoc s = (res, s')
            \<longrightarrow>
            filter (\<lambda>x. \<not> stored \<lparr>wiki = recipe_wiki r, bag = bags ! i\<rparr> t x) s'
              = filter (\<lambda>x. \<not> stored \<lparr>wiki = recipe_wiki r, bag = bags ! i\<rparr> t x) s
            \<and> res \<noteq> Inr None
            \<and> (\<forall>x. res = Inr (Some x) \<longrightarrow>
                  namespace x = \<lparr>wiki = recipe_wiki r, bag = bags ! i\<rparr> \<and> title x = t
                  \<and> specReadDocs [(\<lparr>wiki = recipe_wiki r, bag = bags ! i\<rparr>, t)] s'
                      = [x])"
      by (intro allI impI) (rule landed)
  qed
next
  assume "\<forall>p\<in>set perms. \<not> allowed p"
  then have "find allowed perms = None" by (rule find_None_all)
  then show "\<forall>P. writeToRecipe c P user r t uoc s
             = (Inl (HTTPError (''No bags in wiki '' @ recipe_wiki r @ '' recipe '' @ recipe r
                  @ '' found which can be written to. Errors: ''
                  @ join '', '' (map (\<lambda>p. the (reason p))
                                  (filter (\<lambda>p. truthy (reason p)) perms)))
                  HTTP_FORBIDDEN), s)"
    by (simp add: writeToRecipe_resolved [OF resolved] perms [symmetric])
qed

text \<open>
  With bags \<open>[A, B]\<close>, \<open>A\<close> denied and \<open>B\<close> allowed, the write lands in \<open>B\<close> and the
  record of \<open>A\<close> stays; with both denied the call fails Forbidden with both reasons.
\<close>

theorem writeToRecipe_first_writable_witness:
  "getRecipeBags (exampleCollaborators [''r'' \<mapsto> [''A'', ''B'']]
         (\<lambda>b. if b = ''A'' then deny ''A is read-only'' b else allow b))
       ''alice'' WriteMode [doc ''A'' ''X'' ''old'' ''1'']
       \<lparr>recipe_wiki = ''w'', recipe = ''r''\<rparr> = Some [''A'', ''B'']
   \<and> map perm_bag [deny ''A is read-only'' ''A'', allow ''B''] = [''A'', ''B'']
   \<and> (\<exists>p\<in>set [deny ''A is read-only'' ''A'', allow ''B'']. allowed p)
   \<and> writeToRecipe (exampleCollaborators [''r'' \<mapsto> [''A'', ''B'']]
         (\<lambda>b. if b = ''A'' then deny ''A is read-only'' b else allow b))
       (specPersistence countRevision) ''alice'' \<lparr>recipe_wiki = ''w'', recipe = ''r''\<rparr> ''X''
       (Create [''text'' \<mapsto> FString ''new'']) [doc ''A'' ''X'' ''old'' ''1'']
     = (Inr (Some \<lparr>namespace = \<lparr>wiki = ''w'', bag = ''B''\<rparr>, title = ''X'',
                   tvalue = [''text'' \<mapsto> FString ''new'', ''title'' \<mapsto> FString ''X'',
                             ''creator'' \<mapsto> FString ''alice''], revision = ''rr''\<rparr>),
        [doc ''A'' ''X'' ''old'' ''1'',
         \<lparr>namespace = \<lparr>wiki = ''w'', bag = ''B''\<rparr>, title = ''X'',
            tvalue = [''text'' \<mapsto> FString ''new'', ''title'' \<mapsto> FString ''X'',
                      ''creator'' \<mapsto> FString ''alice''], revision = ''rr''\<rparr>])
   \<and> list_all (\<lambda>p. \<not> allowed p) [deny ''A is read-only'' ''A'', deny ''B is private'' ''B'']
   \<and> writeToRecipe (exampleCollaborators [''r'' \<mapsto> [''A'', ''B'']]
         (\<lambda>b. if b = ''A'' then deny ''A is read-only'' b else deny ''B is private'' b))
       (specPersistence countRevision) ''alice'' \<lparr>recipe_wiki = ''w'', recipe = ''r''\<rparr> ''X''
       (Create [''text'' \<mapsto> FString ''new'']) [doc ''A'' ''X'' ''old'' ''1'']
     = (Inl (HTTPError
          ''No bags in wiki w recipe r found which can be written to. Errors: A is read-only, B is private''
          HTTP_FORBIDDEN), [doc ''A'' ''X'' ''old'' ''1''])"
proof -
  let ?c = "exampleCollaborators [''r'' \<mapsto> [''A'', ''B'']]
              (\<lambda>b. if b = ''A'' then deny ''A is read-only'' b else allow b)
              :: NamespacedTiddler list Collaborators"
  let ?d = "exampleCollaborators [''r'' \<mapsto> [''A'', ''B'']]
              (\<lambda>b. if b = ''A'' then deny ''A is read-only'' b else deny ''B is private'' b)
              :: NamespacedTiddler list Collaborators"
  let ?s = "[doc ''A'' ''X'' ''old'' ''1'']"
  let ?r = "\<lparr>recipe_wiki = ''w'', recipe = ''r''\<rparr>"
  let ?uoc = "Create [''text'' \<mapsto> FString ''new'']"
  have c1: "getRecipeBags ?c ''alice'' WriteMode ?s ?r = Some [''A'', ''B'']"
    by (simp add: exampleCollaborators_def)
  have c2: "[deny ''A is read-only'' ''A'', allow ''B'']
      = getWriteableBag ?c ?s ''alice'' (recipe_wiki ?r) [''A'', ''B''] ''X'' (getTiddlerData ?uoc)"
    by (simp add: exampleCollaborators_def)
  have c3: "map perm_bag [deny ''A is read-only'' ''A'', allow ''B''] = [''A'', ''B'']"
    by (simp add: allow_def deny_def)
  have c4: "\<exists>p\<in>set [deny ''A is read-only'' ''A'', allow ''B'']. allowed p"
    by (simp add: allow_def deny_def)
  have d1: "getRecipeBags ?d ''alice'' WriteMode ?s ?r = Some [''A'', ''B'']"
    by (simp add: exampleCollaborators_def)
  have d2: "[deny ''A is read-only'' ''A'', deny ''B is private'' ''B'']
      = getWriteableBag ?d ?s ''alice'' (recipe_wiki ?r) [''A'', ''B''] ''X'' (getTiddlerData ?uoc)"
    by (simp add: exampleCollaborators_def)
  have d3: "map perm_bag [deny ''A is read-only'' ''A'', deny ''B is private'' ''B'']
      = [''A'', ''B'']"
    by (simp add: deny_def)
  have d4: "list_all (\<lambda>p. \<not> allowed p)
      [deny ''A is read-only'' ''A'', deny ''B is private'' ''B'']"
    by (simp add: deny_def)
  then have d4': "\<forall>p\<in>set [deny ''A is read-only'' ''A'', deny ''B is private'' ''B'']. \<not> allowed p"
    by simp
  have landed: "writeToRecipe ?c (specPersistence countRevision) ''alice'' ?r ''X'' ?uoc ?s
     = (Inr (Some \<lparr>namespace = \<lparr>wiki = ''w'', bag = ''B''\<rparr>, title = ''X'',
                   tvalue = [''text'' \<mapsto> FString ''new'', ''title'' \<mapsto> FString ''X'',
                             ''creator'' \<mapsto> FString ''alice''], revision = ''rr''\<rparr>),
        [doc ''A'' ''X'' ''old'' ''1'',
         \<lparr>namespace = \<lparr>wiki = ''w'', bag = ''B''\<rparr>, title = ''X'',
            tvalue = [''text'' \<mapsto> FString ''new'', ''title'' \<mapsto> FString ''X'',
                      ''creator'' \<mapsto> FString ''alice''], revision = ''rr''\<rparr>])"
    by (simp add: writeToRecipe_def example_defs Let_def)
  from writeToRecipe_first_writable [OF d1 d2 d3, where newRevision = countRevision] d4'
  have "writeToRecipe ?d (specPersistence countRevision) ''alice'' ?r ''X'' ?uoc ?s
     = (Inl (HTTPError (''No bags in wiki '' @ recipe_wiki ?r @ '' recipe '' @ recipe ?r
          @ '' found which can be written to. Errors: ''
          @ join '', '' (map (\<lambda>p. the (reason p)) (filter (\<lambda>p. truthy (reason p))
              [deny ''A is read-only'' ''A'', deny ''B is private'' ''B''])))
          HTTP_FORBIDDEN), ?s)"
    by blast
  then have refused: "writeToRecipe ?d (specPersistence countRevision) ''alice'' ?r ''X'' ?uoc ?s
     = (Inl (HTTPError
          ''No bags in wiki w recipe r found which can be written to. Errors: A is read-only, B is private''
          HTTP_FORBIDDEN), ?s)"
    by (simp add: deny_def truthy_def)
  show ?thesis
    using writeToRecipe_first_writable [OF c1 c2 c3, where newRevision = countRevision]
    by - (intro conjI c1 c3 c4 landed d4 refused)
qed

section \<open>Removing\<close>

lemma removeFromBag_allowed:
  "verifyRemoveAccess c s user (wiki ns) [bag ns] = writePermission # rest \<Longrightarrow>
   allowed writePermission \<Longrightarrow>
   removeFromBag c P user ns t expectedRevision s
     = (case updateDoc P ns t removeUpdater (Some expectedRevision) (s, False) of
          (Inl e, s', _) \<Rightarrow> (Inl e, s')
        | (Inr _, s', tiddlerExisted) \<Rightarrow> (Inr tiddlerExisted, s'))"
  by (simp add: removeFromBag_def runTransaction_def)

text \<open>
  C9. When \<open>removeFromBag\<close> is permitted, the updater it hands to the compare-and-swap
  yields absence on every input, so the record is deleted; the call returns whether a
  tiddler was stored before the removal. With the reference persistence the call returns
  whenever the revision gate lets it pass, and what it returns is always that boolean,
  also when nothing was stored and the deletion changes nothing.
\<close>

theorem removeFromBag_reports_existence:
  assumes "verifyRemoveAccess c s user (wiki ns) [bag ns] = writePermission # rest"
    and "allowed writePermission"
  shows "(\<forall>tiddler l. fst (removeUpdater tiddler l) = Inr None)
    \<and> (\<forall>P. removeFromBag c P user ns t expectedRevision s
           = (case updateDoc P ns t removeUpdater (Some expectedRevision) (s, False) of
                (Inl e, s', _) \<Rightarrow> (Inl e, s')
              | (Inr _, s', tiddlerExisted) \<Rightarrow> (Inr tiddlerExisted, s')))
    \<and> ((\<forall>x. find (stored ns t) s = Some x \<longrightarrow> revision x = expectedRevision) \<longrightarrow>
         removeFromBag c (specPersistence newRevision) user ns t expectedRevision s
           = (Inr (find (stored ns t) s \<noteq> None), filter (\<lambda>x. \<not> stored ns t x) s))
    \<and> (\<forall>existed s'. removeFromBag c (specPersistence newRevision) user ns t expectedRevision s
            = (Inr existed, s') \<longrightarrow> existed = (find (stored ns t) s \<noteq> None))"
  by (auto simp: removeFromBag_allowed [OF assms] removeUpdater_def specPersistence_def
      specUpdateDoc_def Let_def split: option.splits if_splits)

text \<open>
  Removing \<open>X\<close>, stored in bag \<open>A\<close> at revision \<open>1\<close>, returns true and deletes it;
  removing \<open>Y\<close>, which is not stored, returns false and changes nothing.
\<close>

theorem removeFromBag_reports_existence_witness:
  "verifyRemoveAccess (exampleCollaborators Map.empty allow)
       [doc ''A'' ''X'' ''a'' ''1'', doc ''B'' ''X'' ''b'' ''2''] ''alice'' ''w'' [''A'']
     = [allow ''A'']
   \<and> allowed (allow ''A'')
   \<and> find (stored \<lparr>wiki = ''w'', bag = ''A''\<rparr> ''X'')
       [doc ''A'' ''X'' ''a'' ''1'', doc ''B'' ''X'' ''b'' ''2''] = Some (doc ''A'' ''X'' ''a'' ''1'')
   \<and> revision (doc ''A'' ''X'' ''a'' ''1'') = ''1''
   \<and> removeFromBag (exampleCollaborators Map.empty allow) (specPersistence countRevision)
       ''alice'' \<lparr>wiki = ''w'', bag = ''A''\<rparr> ''X'' ''1''
       [doc ''A'' ''X'' ''a'' ''1'', doc ''B'' ''X'' ''b'' ''2'']
     = (Inr True, [doc ''B'' ''X'' ''b'' ''2''])
   \<and> find (stored \<lparr>wiki = ''w'', bag = ''A''\<rparr> ''Y'')
       [doc ''A'' ''X'' ''a'' ''1'', doc ''B'' ''X'' ''b'' ''2''] = None
   \<and> removeFromBag (exampleCollaborators Map.empty allow) (specPersistence countRevision)
       ''alice'' \<lparr>wiki = ''w'', bag = ''A''\<rparr> ''Y'' ''1''
       [doc ''A'' ''X'' ''a'' ''1'', doc ''B'' ''X'' ''b'' ''2'']
     = (Inr False, [doc ''A'' ''X'' ''a'' ''1'', doc ''B'' ''X'' ''b'' ''2''])"
proof -
  let ?c = "exampleCollaborators Map.empty allow :: NamespacedTiddler list Collaborators"
  let ?s = "[doc ''A'' ''X'' ''a'' ''1'', doc ''B'' ''X'' ''b'' ''2'']"
  let ?ns = "\<lparr>wiki = ''w'', bag = ''A''\<rparr>"
  have h1: "verifyRemoveAccess ?c ?s ''alice'' (wiki ?ns) [bag ?ns] = allow ''A'' # []"
    by (simp add: exampleCollaborators_def)
  have h2: "allowed (allow ''A'')"
    by (simp add: allow_def)
  have x: "find (stored ?ns ''X'') ?s = Some (doc ''A'' ''X'' ''a'' ''1'')"
    by (simp add: stored_def doc_def)
  have x_rev: "revision (doc ''A'' ''X'' ''a'' ''1'') = ''1''"
    by (simp add: doc_def)
  have y: "find (stored ?ns ''Y'') ?s = None"
    by (simp add: stored_def doc_def)
  have gate_x: "\<forall>r. find (stored ?ns ''X'') ?s = Some r \<longrightarrow> revision r = ''1''"
    unfolding x using x_rev by simp
  have gate_y: "\<forall>r. find (stored ?ns ''Y'') ?s = Some r \<longrightarrow> revision r = ''1''"
    unfolding y by simp
  note on_x = removeFromBag_reports_existence [OF h1 h2, of "''X''" "''1''" countRevision]
  note on_y = removeFromBag_reports_existence [OF h1 h2, of "''Y''" "''1''" countRevision]
  from on_x [THEN conjunct2, THEN conjunct2, THEN conjunct1, THEN mp, OF gate_x]
  have "removeFromBag ?c (specPersistence countRevision) ''alice'' ?ns ''X'' ''1'' ?s
          = (Inr (find (stored ?ns ''X'') ?s \<noteq> None), filter (\<lambda>x. \<not> stored ?ns ''X'' x) ?s)" .
  then have removed: "removeFromBag ?c (specPersistence countRevision) ''alice'' ?ns ''X'' ''1'' ?s
          = (Inr True, [doc ''B'' ''X'' ''b'' ''2''])"
    by (simp add: stored_def doc_def)
  from on_y [THEN conjunct2, THEN conjunct2, THEN conjunct1, THEN mp, OF gate_y]
  have "removeFromBag ?c (specPersistence countRevision) ''alice'' ?ns ''Y'' ''1'' ?s
          = (Inr (find (stored ?ns ''Y'') ?s \<noteq> None), filter (\<lambda>x. \<not> stored ?ns ''Y'' x) ?s)" .
  then have absent: "removeFromBag ?c (specPersistence countRevision) ''alice'' ?ns ''Y'' ''1'' ?s
          = (Inr False, ?s)"
    by (simp add: stored_def doc_def)
  from h1 have h1': "verifyRemoveAccess ?c ?s ''alice'' ''w'' [''A''] = [allow ''A'']"
    by simp
  show ?thesis
    by (intro conjI h1' h2 x x_rev removed y absent)
qed

section \<open>Refused calls change nothing\<close>

lemma writeToBag_denied:
  "getWriteableBag c s user (wiki ns) [bag ns] t (getTiddlerData uoc) = writePermission # rest \<Longrightarrow>
   \<not> allowed writePermission \<Longrightarrow>
   writeToBag c P user ns t uoc s
     = (Inl (HTTPError (''Tiddler write denied '' @ reasonOrEmpty writePermission)
          HTTP_FORBIDDEN), s)"
  by (simp add: writeToBag_def runTransaction_def)

lemma removeFromBag_denied:
  "verifyRemoveAccess c s user (wiki ns) [bag ns] = writePermission # rest \<Longrightarrow>
   \<not> allowed writePermission \<Longrightarrow>
   removeFromBag c P user ns t expectedRevision s
     = (Inl (HTTPError (''Tiddler remove denied '' @ reasonOrEmpty writePermission)
          HTTP_FORBIDDEN), s)"
  by (simp add: removeFromBag_def runTransaction_def)

text \<open>
  The compare-and-swap of the reference persistence fails with Conflict or with the error
  of the updater (BadRequest), never with Forbidden or NotFound.
\<close>

lemma specUpdateDoc_write_errors:
  "fst (updateDoc (specPersistence newRevision) ns t (asUpdater (getUpdater c user t uoc)) e w)
     = Inl err \<Longrightarrow> \<not> denial err"
  by (cases w; cases uoc)
    (auto simp: specPersistence_def specUpdateDoc_def asUpdater_def getUpdater_def denial_def
      Let_def split: if_splits option.splits)

lemma specUpdateDoc_remove_errors:
  "fst (updateDoc (specPersistence newRevision) ns t removeUpdater e w) = Inl err
     \<Longrightarrow> \<not> denial err"
  by (cases w)
    (auto simp: specPersistence_def specUpdateDoc_def removeUpdater_def denial_def
      Let_def split: if_splits option.splits)

text \<open>
  C10. When \<open>writeToBag\<close>, \<open>writeToRecipe\<close> or \<open>removeFromBag\<close> fails with Forbidden or
  NotFound, and the compare-and-swap of the persistence does not itself fail with these,
  then the state is the one before the call and the call fails in the same way whatever
  \<open>updateDoc\<close> is put in place of the one of the persistence: no compare-and-swap is
  issued.
\<close>

theorem refused_calls_issue_no_update:
  assumes write_errors:
      "\<forall>ns w e. fst (updateDoc P ns t (asUpdater (getUpdater c user t uoc))
                       (getExpectedRevision uoc) w) = Inl e \<longrightarrow> \<not> denial e"
    and remove_errors:
      "\<forall>w e. fst (updateDoc Q ns t removeUpdater (Some expectedRevision) w) = Inl e
                 \<longrightarrow> \<not> denial e"
  shows "(\<forall>e s'. writeToBag c P user ns t uoc s = (Inl e, s') \<and> denial e \<longrightarrow>
            s' = s \<and> (\<forall>u. writeToBag c (P\<lparr>updateDoc := u\<rparr>) user ns t uoc s = (Inl e, s)))
       \<and> (\<forall>e s'. writeToRecipe c P user r t uoc s = (Inl e, s') \<and> denial e \<longrightarrow>
            s' = s \<and> (\<forall>u. writeToRecipe c (P\<lparr>updateDoc := u\<rparr>) user r t uoc s = (Inl e, s)))
       \<and> (\<forall>e s'. removeFromBag c Q user ns t expectedRevision s = (Inl e, s') \<and> denial e \<longrightarrow>
            s' = s \<and> (\<forall>u. removeFromBag c (Q\<lparr>updateDoc := u\<rparr>) user ns t expectedRevision s
                            = (Inl e, s)))"
proof -
  have bagPart:
    "s' = s \<and> (\<forall>u. writeToBag c (P\<lparr>updateDoc := u\<rparr>) user ns t uoc s = (Inl e, s))"
    if res: "writeToBag c P user ns t uoc s = (Inl e, s')" and den: "denial e" for e s'
  proof (cases "getWriteableBag c s user (wiki ns) [bag ns] t (getTiddlerData uoc)")
    case Nil
    with res den show ?thesis
      by (simp add: writeToBag_def runTransaction_def denial_def)
  next
    case (Cons wp rest)
    show ?thesis
    proof (cases "allowed wp")
      case False
      with res writeToBag_denied [OF Cons False] show ?thesis by simp
    next
      case True
      obtain r1 s1 l1 where u: "updateDoc P ns t (asUpdater (getUpdater c user t uoc))
                 (getExpectedRevision uoc) (s, ()) = (r1, s1, l1)"
        by (cases "updateDoc P ns t (asUpdater (getUpdater c user t uoc))
                 (getExpectedRevision uoc) (s, ())") auto
      with res Cons True
      have "r1 = Inl e
          \<or> (r1 = Inr None \<and> e = Error ''Result of write transaction should not be null'')"
        by (auto simp: writeToBag_def runTransaction_def split: sum.splits option.splits)
      with den have "r1 = Inl e" by (auto simp: denial_def)
      with write_errors [rule_format, of ns "(s, ())" e] u den show ?thesis by simp
    qed
  qed
  have recipePart:
    "s' = s \<and> (\<forall>u. writeToRecipe c (P\<lparr>updateDoc := u\<rparr>) user r t uoc s = (Inl e, s))"
    if res: "writeToRecipe c P user r t uoc s = (Inl e, s')" and den: "denial e" for e s'
  proof (cases "getRecipeBags c user WriteMode s r")
    case None
    with res show ?thesis by (simp add: writeToRecipe_def runTransaction_def)
  next
    case (Some bags)
    note resolved = Some
    show ?thesis
    proof (cases "find allowed
                    (getWriteableBag c s user (recipe_wiki r) bags t (getTiddlerData uoc))")
      case None
      have "writeToRecipe c P' user r t uoc s = writeToRecipe c P user r t uoc s" for P'
        by (simp add: writeToRecipe_resolved [OF resolved] None)
      moreover have "s' = s"
        using res by (simp add: writeToRecipe_resolved [OF resolved] None)
      ultimately show ?thesis using res by simp
    next
      case (Some q)
      obtain r1 s1 l1 where u: "updateDoc P \<lparr>wiki = recipe_wiki r, bag = perm_bag q\<rparr> t
                 (asUpdater (getUpdater c user t uoc)) (getExpectedRevision uoc) (s, ())
                 = (r1, s1, l1)"
        by (cases "updateDoc P \<lparr>wiki = recipe_wiki r, bag = perm_bag q\<rparr> t
                 (asUpdater (getUpdater c user t uoc)) (getExpectedRevision uoc) (s, ())") auto
      with res Some have "r1 = Inl e"
        by (simp add: writeToRecipe_resolved [OF resolved])
      with write_errors [rule_format, of "\<lparr>wiki = recipe_wiki r, bag = perm_bag q\<rparr>" "(s, ())" e]
        u den
      show ?thesis by simp
    qed
  qed
  have removePart:
    "s' = s \<and> (\<forall>u. removeFromBag c (Q\<lparr>updateDoc := u\<rparr>) user ns t expectedRevision s
                     = (Inl e, s))"
    if res: "removeFromBag c Q user ns t expectedRevision s = (Inl e, s')" and den: "denial e"
    for e s'
  proof (cases "verifyRemoveAccess c s user (wiki ns) [bag ns]")
    case Nil
    with res den show ?thesis
      by (simp add: removeFromBag_def runTransaction_def denial_def)
  next
    case (Cons wp rest)
    show ?thesis
    proof (cases "allowed wp")
      case False
      with res removeFromBag_denied [OF Cons False] show ?thesis by simp
    next
      case True
      obtain r1 s1 l1 where u: "updateDoc Q ns t removeUpdater (Some expectedRevision) (s, False)
                 = (r1, s1, l1)"
        by (cases "updateDoc Q ns t removeUpdater (Some expectedRevision) (s, False)") auto
      with res Cons True have "r1 = Inl e"
        by (auto simp: removeFromBag_def runTransaction_def split: sum.splits)
      with remove_errors [rule_format, of "(s, False)" e] u den show ?thesis by simp
    qed
  qed
  from bagPart recipePart removePart show ?thesis by blast
qed

text \<open>
  With every bag denied, a write to bag \<open>A\<close> and a removal from it fail Forbidden, and a
  write through the unknown recipe \<open>q\<close> fails NotFound; they fail in the same way, with
  the state unchanged, when \<open>updateDoc\<close> is replaced by a function that empties the store.
\<close>

theorem refused_calls_issue_no_update_witness:
  "writeToBag (exampleCollaborators [''r'' \<mapsto> [''A'']] (deny ''read-only''))
       (specPersistence countRevision) ''alice'' \<lparr>wiki = ''w'', bag = ''A''\<rparr> ''X''
       (Update [''text'' \<mapsto> FString ''n''] None) [doc ''A'' ''X'' ''a'' ''1'']
     = (Inl (HTTPError ''Tiddler write denied read-only'' HTTP_FORBIDDEN),
        [doc ''A'' ''X'' ''a'' ''1''])
   \<and> denial (HTTPError ''Tiddler write denied read-only'' HTTP_FORBIDDEN)
   \<and> writeToBag (exampleCollaborators [''r'' \<mapsto> [''A'']] (deny ''read-only''))
       ((specPersistence countRevision)\<lparr>updateDoc := \<lambda>ns t u e w. (Inr None, [], snd w)\<rparr>)
       ''alice'' \<lparr>wiki = ''w'', bag = ''A''\<rparr> ''X''
       (Update [''text'' \<mapsto> FString ''n''] None) [doc ''A'' ''X'' ''a'' ''1'']
     = (Inl (HTTPError ''Tiddler write denied read-only'' HTTP_FORBIDDEN),
        [doc ''A'' ''X'' ''a'' ''1''])
   \<and> writeToRecipe (exampleCollaborators [''r'' \<mapsto> [''A'']] (deny ''read-only''))
       (specPersistence countRevision) ''alice'' \<lparr>recipe_wiki = ''w'', recipe = ''q''\<rparr> ''X''
       (Update [''text'' \<mapsto> FString ''n''] None) [doc ''A'' ''X'' ''a'' ''1'']
     = (Inl (HTTPError ''Recipe q not found in wiki w'' HTTP_NOT_FOUND),
        [doc ''A'' ''X'' ''a'' ''1''])
   \<and> denial (HTTPError ''Recipe q not found in wiki w'' HTTP_NOT_FOUND)
   \<and> writeToRecipe (exampleCollaborators [''r'' \<mapsto> [''A'']] (deny ''read-only''))
       ((specPersistence countRevision)\<lparr>updateDoc := \<lambda>ns t u e w. (Inr None, [], snd w)\<rparr>)
       ''alice'' \<lparr>recipe_wiki = ''w'', recipe = ''q''\<rparr> ''X''
       (Update [''text'' \<mapsto> FString ''n''] None) [doc ''A'' ''X'' ''a'' ''1'']
     = (Inl (HTTPError ''Recipe q not found in wiki w'' HTTP_NOT_FOUND),
        [doc ''A'' ''X'' ''a'' ''1''])
   \<and> removeFromBag (exampleCollaborators [''r'' \<mapsto> [''A'']] (deny ''read-only''))
       (specPersistence countRevision) ''alice'' \<lparr>wiki = ''w'', bag = ''A''\<rparr> ''X'' ''1''
       [doc ''A'' ''X'' ''a'' ''1'']
     = (Inl (HTTPError ''Tiddler remove denied read-only'' HTTP_FORBIDDEN),
        [doc ''A'' ''X'' ''a'' ''1''])
   \<and> denial (HTTPError ''Tiddler remove denied read-only'' HTTP_FORBIDDEN)
   \<and> removeFromBag (exampleCollaborators [''r'' \<mapsto> [''A'']] (deny ''read-only''))
       ((specPersistence countRevision)\<lparr>updateDoc := \<lambda>ns t u e w. (Inr None, [], snd w)\<rparr>)
       ''alice'' \<lparr>wiki = ''w'', bag = ''A''\<rparr> ''X'' ''1'' [doc ''A'' ''X'' ''a'' ''1'']
     = (Inl (HTTPError ''Tiddler remove denied read-only'' HTTP_FORBIDDEN),
        [doc ''A'' ''X'' ''a'' ''1''])"
proof -
  let ?c = "exampleCollaborators [''r'' \<mapsto> [''A'']] (deny ''read-only'')
              :: NamespacedTiddler list Collaborators"
  let ?P = "specPersistence countRevision :: (NamespacedTiddler list, unit) TiddlerPersistence"
  let ?Q = "specPersistence countRevision :: (NamespacedTiddler list, bool) TiddlerPersistence"
  let ?s = "[doc ''A'' ''X'' ''a'' ''1'']"
  let ?ns = "\<lparr>wiki = ''w'', bag = ''A''\<rparr>"
  let ?q = "\<lparr>recipe_wiki = ''w'', recipe = ''q''\<rparr>"
  let ?uoc = "Update [''text'' \<mapsto> FString ''n''] None"
  let ?e1 = "HTTPError ''Tiddler write denied read-only'' HTTP_FORBIDDEN"
  let ?e2 = "HTTPError ''Recipe q not found in wiki w'' HTTP_NOT_FOUND"
  let ?e3 = "HTTPError ''Tiddler remove denied read-only'' HTTP_FORBIDDEN"
  have write_errors:
    "\<forall>ns w e. fst (updateDoc ?P ns ''X'' (asUpdater (getUpdater ?c ''alice'' ''X'' ?uoc))
                     (getExpectedRevision ?uoc) w) = Inl e \<longrightarrow> \<not> denial e"
    by (intro allI impI) (rule specUpdateDoc_write_errors)
  have remove_errors:
    "\<forall>w e. fst (updateDoc ?Q ?ns ''X'' removeUpdater (Some ''1'') w) = Inl e
             \<longrightarrow> \<not> denial e"
    by (intro allI impI) (rule specUpdateDoc_remove_errors)
  note no_update = refused_calls_issue_no_update [of ?P "''X''" ?c "''alice''" ?uoc ?Q ?ns "''1''"
      ?s ?q, OF write_errors remove_errors]
  have b1: "writeToBag ?c ?P ''alice'' ?ns ''X'' ?uoc ?s = (Inl ?e1, ?s)"
    by (simp add: writeToBag_def example_defs)
  have b2: "denial ?e1" by (simp add: denial_def)
  from no_update [THEN conjunct1, THEN spec, THEN spec, THEN mp, OF conjI [OF b1 b2],
      THEN conjunct2]
  have b3: "writeToBag ?c (?P\<lparr>updateDoc := \<lambda>ns t u e w. (Inr None, [], snd w)\<rparr>) ''alice'' ?ns
              ''X'' ?uoc ?s = (Inl ?e1, ?s)"
    by blast
  have r1: "writeToRecipe ?c ?P ''alice'' ?q ''X'' ?uoc ?s = (Inl ?e2, ?s)"
    by (simp add: writeToRecipe_def example_defs)
  have r2: "denial ?e2" by (simp add: denial_def)
  from no_update [THEN conjunct2, THEN conjunct1, THEN spec, THEN spec, THEN mp,
      OF conjI [OF r1 r2], THEN conjunct2]
  have r3: "writeToRecipe ?c (?P\<lparr>updateDoc := \<lambda>ns t u e w. (Inr None, [], snd w)\<rparr>) ''alice''
              ?q ''X'' ?uoc ?s = (Inl ?e2, ?s)"
    by blast
  have d1: "removeFromBag ?c ?Q ''alice'' ?ns ''X'' ''1'' ?s = (Inl ?e3, ?s)"
    by (simp add: removeFromBag_def example_defs)
  have d2: "denial ?e3" by (simp add: denial_def)
  from no_update [THEN conjunct2, THEN conjunct2, THEN spec, THEN spec, THEN mp,
      OF conjI [OF d1 d2], THEN conjunct2]
  have d3: "removeFromBag ?c (?Q\<lparr>updateDoc := \<lambda>ns t u e w. (Inr None, [], snd w)\<rparr>) ''alice''
              ?ns ''X'' ''1'' ?s = (Inl ?e3, ?s)"
    by blast
  show ?thesis
    by (intro conjI b1 b2 b3 r1 r2 r3 d1 d2 d3)
qed

end
